theory Spec2Isabelle
  imports Main "HOL-Library.AList"
begin

section \<open>Strings as Python sees them\<close>

text \<open>
  A Python \<open>str\<close> is modelled as a \<open>string\<close> whose characters are the code points
  U+0000 .. U+00FF. \<open>str.lower\<close> maps A-Z and the Latin-1 capitals (U+00C0 .. U+00DE
  without the multiplication sign U+00D7) 32 positions up and leaves every other
  character alone; \<open>str.strip\<close> removes the characters \<open>str.isspace\<close> accepts in
  that range from both ends.
\<close>

definition is_upper :: "char \<Rightarrow> bool" where
  "is_upper c =
     (let n = (of_char c :: nat)
      in (65 \<le> n \<and> n \<le> 90) \<or> (192 \<le> n \<and> n \<le> 222 \<and> n \<noteq> 215))"

definition lower_char :: "char \<Rightarrow> char" where
  "lower_char c = (if is_upper c then char_of ((of_char c :: nat) + 32) else c)"

definition py_lower :: "string \<Rightarrow> string" where
  "py_lower s = map lower_char s"

definition is_space :: "char \<Rightarrow> bool" where
  "is_space c =
     (let n = (of_char c :: nat)
      in (9 \<le> n \<and> n \<le> 13) \<or> (28 \<le> n \<and> n \<le> 32) \<or> n = 133 \<or> n = 160)"

definition py_strip :: "string \<Rightarrow> string" where
  "py_strip s = rev (dropWhile is_space (rev (dropWhile is_space s)))"

section \<open>fnmatch\<close>

text \<open>
  \<open>fnmatch.fnmatch(name, pat)\<close> of the standard library, as it behaves on Windows (the
  program drives Outlook through COM): both arguments go through \<open>os.path.normcase\<close>
  (forward slashes become backslashes, then lower case), the pattern is translated
  (\<open>*\<close> any run of characters, \<open>?\<close> any one character, \<open>[seq]\<close> and \<open>[!seq]\<close>
  character classes with \<open>a-b\<close> ranges, a \<open>[\<close> that is never closed is literal) and
  the whole name has to match.
\<close>

datatype glob_tok = Star | AnyChar | Lit char | CharClass bool string

fun scan_close :: "string \<Rightarrow> (string \<times> string) option" where
  "scan_close [] = None"
| "scan_close (c # cs) =
     (if c = CHR '']'' then Some ([], cs)
      else (case scan_close cs of
              None \<Rightarrow> None
            | Some (stuff, rest) \<Rightarrow> Some (c # stuff, rest)))"

definition bracket_split :: "string \<Rightarrow> (bool \<times> string \<times> string) option" where
  "bracket_split p =
     (let neg = (p \<noteq> [] \<and> hd p = CHR ''!'');
          p1 = (if neg then tl p else p);
          first = (p1 \<noteq> [] \<and> hd p1 = CHR '']'');
          p2 = (if first then tl p1 else p1)
      in (case scan_close p2 of
            None \<Rightarrow> None
          | Some (stuff, rest) \<Rightarrow>
              Some (neg, (if first then CHR '']'' # stuff else stuff), rest)))"

lemma scan_close_shorter:
  "scan_close p = Some (stuff, rest) \<Longrightarrow> length rest < length p"
  by (induction p arbitrary: stuff rest) (auto split: if_splits option.splits)

lemma bracket_split_shorter:
  "bracket_split p = Some (neg, stuff, rest) \<Longrightarrow> length rest < Suc (length p)"
  unfolding bracket_split_def Let_def
  by (cases p; cases "tl p")
     (auto split: if_splits option.splits dest!: scan_close_shorter)

function translate :: "string \<Rightarrow> glob_tok list" where
  "translate [] = []"
| "translate (c # p) =
     (if c = CHR ''*'' then Star # translate p
      else if c = CHR ''?'' then AnyChar # translate p
      else if c = CHR ''['' then
        (case bracket_split p of
           None \<Rightarrow> Lit c # translate p
         | Some (neg, stuff, rest) \<Rightarrow> CharClass neg stuff # translate rest)
      else Lit c # translate p)"
  by pat_completeness auto
termination
  by (relation "measure length") (auto dest: bracket_split_shorter)

fun in_class :: "char \<Rightarrow> string \<Rightarrow> bool" where
  "in_class c [] = False"
| "in_class c [a] = (c = a)"
| "in_class c [a, b] = (c = a \<or> c = b)"
| "in_class c (a # b # d # rest) =
     (if b = CHR ''-''
      then ((of_char a :: nat) \<le> of_char c \<and> (of_char c :: nat) \<le> of_char d) \<or> in_class c rest
      else c = a \<or> in_class c (b # d # rest))"

fun match_toks :: "glob_tok list \<Rightarrow> string \<Rightarrow> bool" where
  "match_toks [] n = (n = [])"
| "match_toks (Star # ts) [] = match_toks ts []"
| "match_toks (Star # ts) (c # cs) = (match_toks ts (c # cs) \<or> match_toks (Star # ts) cs)"
| "match_toks (AnyChar # ts) [] = False"
| "match_toks (AnyChar # ts) (c # cs) = match_toks ts cs"
| "match_toks (Lit a # ts) [] = False"
| "match_toks (Lit a # ts) (c # cs) = (a = c \<and> match_toks ts cs)"
| "match_toks (CharClass neg stuff # ts) [] = False"
| "match_toks (CharClass neg stuff # ts) (c # cs) =
     ((in_class c stuff \<noteq> neg) \<and> match_toks ts cs)"

definition normcase :: "string \<Rightarrow> string" where
  "normcase s = py_lower (map (\<lambda>c. if c = CHR ''/'' then CHR 0x5C else c) s)"

definition fnmatch :: "string \<Rightarrow> string \<Rightarrow> bool" where
  "fnmatch name pat = match_toks (translate (normcase pat)) (normcase name)"

section \<open>File names and paths\<close>

text \<open>\<open>re.sub(r'[<>:"/\\|?*]', '_', name)\<close>: the nine characters of the class.\<close>

definition illegal_chars :: "char list" where
  "illegal_chars =
     [CHR ''<'', CHR ''>'', CHR '':'', CHR 0x22, CHR ''/'', CHR 0x5C, CHR ''|'', CHR ''?'', CHR ''*'']"

fun re_sub_illegal :: "string \<Rightarrow> string" where
  "re_sub_illegal [] = []"
| "re_sub_illegal (c # cs) =
     (if c \<in> set illegal_chars then CHR ''_'' # re_sub_illegal cs else c # re_sub_illegal cs)"

text \<open>
  \<open>os.path.join(a, b)\<close> on Windows for a second component that has neither a drive
  nor a leading separator, and a first component that is drive-letter based or relative
  (UNC roots are not modelled).
\<close>

definition splitdrive :: "string \<Rightarrow> string \<times> string" where
  "splitdrive p = (if 2 \<le> length p \<and> p ! 1 = CHR '':'' then (take 2 p, drop 2 p) else ([], p))"

definition path_join :: "string \<Rightarrow> string \<Rightarrow> string" where
  "path_join a b =
     (let (drive, path) = splitdrive a
      in if path \<noteq> [] \<and> last path \<noteq> CHR 0x5C \<and> last path \<noteq> CHR ''/''
         then drive @ path @ [CHR 0x5C] @ b
         else drive @ path @ b)"

section \<open>The rule table and the rule index\<close>

text \<open>
  What \<open>pd.read_excel\<close> hands over: the header cells as read and the data rows. A cell
  of the rule table is text or empty; pandas reads an empty cell as NaN, and \<open>str\<close> of
  NaN is the text \<open>nan\<close>. A row that is shorter than the header is filled with NaN.
  Column labels are taken to be distinct after normalisation, so that \<open>row[name]\<close> is
  one cell and \<open>get_loc\<close> one position.
\<close>

datatype cell = Text string | NaN

fun py_str :: "cell \<Rightarrow> string" where
  "py_str (Text s) = s"
| "py_str NaN = ''nan''"

record dataframe =
  columns :: "string list"
  rows :: "cell list list"

fun get_loc :: "string \<Rightarrow> string list \<Rightarrow> nat option" where
  "get_loc name [] = None"
| "get_loc name (c # cs) =
     (if c = name then Some 0 else map_option Suc (get_loc name cs))"

definition row_get :: "string list \<Rightarrow> cell list \<Rightarrow> string \<Rightarrow> cell" where
  "row_get cols row name =
     (case get_loc name cols of
        None \<Rightarrow> NaN
      | Some i \<Rightarrow> if i < length row then row ! i else NaN)"

record rule =
  AttachmentPattern :: string
  SaveName :: string
  RowIndex :: nat

type_synonym rule_index = "((string \<times> string) \<times> rule list) list"

definition dict_get :: "('k \<times> 'v list) list \<Rightarrow> 'k \<Rightarrow> 'v list" where
  "dict_get d k = (case map_of d k of None \<Rightarrow> [] | Some v \<Rightarrow> v)"

definition required_cols :: "string list" where
  "required_cols = [''sender'', ''subject'', ''attachment'', ''savename'', ''status'']"

text \<open>The key and the value the loader derives from one row (lines 196 to 204).\<close>

definition row_key :: "string list \<Rightarrow> cell list \<Rightarrow> string \<times> string" where
  "row_key cols row =
     (py_strip (py_lower (py_str (row_get cols row ''sender''))),
      py_strip (py_lower (py_str (row_get cols row ''subject''))))"

definition row_value :: "string list \<Rightarrow> nat \<Rightarrow> cell list \<Rightarrow> rule" where
  "row_value cols idx row =
     \<lparr>AttachmentPattern = py_strip (py_lower (py_str (row_get cols row ''attachment''))),
      SaveName = py_strip (py_str (row_get cols row ''savename'')),
      RowIndex = idx\<rparr>"

text \<open>
  \<open>for idx, row in df.iterrows()\<close>, with \<open>idx\<close> the label of the first row left:
  \<open>mapping_dict.setdefault(key, []).append(value)\<close>.
\<close>

fun build_loop :: "string list \<Rightarrow> nat \<Rightarrow> cell list list \<Rightarrow> rule_index \<Rightarrow> rule_index" where
  "build_loop cols idx [] mapping = mapping"
| "build_loop cols idx (row # rest) mapping =
     (let key = row_key cols row;
          val = row_value cols idx row
      in build_loop cols (Suc idx) rest (AList.update key (dict_get mapping key @ [val]) mapping))"

section \<open>Workbook, messages, the processor and its surroundings\<close>

text \<open>
  A worksheet maps (row, column) to the cell's value; a cell that is not listed is
  empty (\<open>None\<close>). A workbook has its sheets by title and its defined names, each
  pointing at one cell of one sheet.
\<close>

type_synonym worksheet = "((nat \<times> nat) \<times> string) list"

record workbook =
  sheets :: "(string \<times> worksheet) list"
  defined_names :: "(string \<times> (string \<times> nat \<times> nat)) list"

definition cell_value :: "worksheet \<Rightarrow> nat \<Rightarrow> nat \<Rightarrow> string option" where
  "cell_value ws r c = map_of ws (r, c)"

definition set_cell :: "worksheet \<Rightarrow> nat \<Rightarrow> nat \<Rightarrow> string option \<Rightarrow> worksheet" where
  "set_cell ws r c v =
     (case v of None \<Rightarrow> AList.delete (r, c) ws | Some x \<Rightarrow> AList.update (r, c) x ws)"

definition wb_set_cell :: "workbook \<Rightarrow> string \<Rightarrow> nat \<Rightarrow> nat \<Rightarrow> string option \<Rightarrow> workbook" where
  "wb_set_cell b title r c v =
     b\<lparr>sheets := AList.update title (set_cell (dict_get (sheets b) title) r c v) (sheets b)\<rparr>"

record attachment =
  FileName :: string
  content :: string
  saveable :: bool

record message =
  Class :: nat
  SenderEmailAddress :: string
  Subject :: string
  Attachments :: "attachment list"

definition MAIL :: nat where
  "MAIL = 43"

datatype error = ValueError | KeyError | AttributeError | ComError

text \<open>
  The lines the logger receives, by kind: \<open>Info\<close> and \<open>Warning\<close> and \<open>Error\<close> carry
  what the message text is built from.
\<close>

datatype log_entry =
    WorkbookLoaded
  | CannotLoadWorkbook
  | SheetNotFound
  | NamedRangeNotFound string
  | BusinessDates string string string
  | StatusReset nat
  | FailedToRead
  | MappingCreated nat
  | ProcessingMessage nat string string
  | Saved string
  | NoMatch string string string
  | ErrorProcessingMessage nat error
  | EmailsProcessed nat
  | StatusUpdated
  | WorkbookSaved
  | FailedToSave

text \<open>
  The surroundings: the log, the journal of \<open>SaveAsFile\<close> writes (path and bytes, in
  order; a later write to the same path replaces the earlier one), what
  \<open>pd.read_excel\<close> and \<open>load_workbook\<close> yield for the Excel file (\<open>None\<close>: the call
  raises), whether \<open>wb.save\<close> succeeds, and the workbook last saved.
\<close>

record world =
  logs :: "log_entry list"
  saved_files :: "(string \<times> string) list"
  read_excel :: "dataframe option"
  load_workbook :: "workbook option"
  save_ok :: bool
  saved_workbook :: "workbook option"

type_synonym updates = "(nat \<times> (string \<times> string) list) list"

record processor =
  excel_file :: string
  wb :: "workbook option"
  auto_ws :: "string option"
  mailbox_name :: "string option"
  archive_folder :: string
  mapping_df :: "dataframe option"
  mapping_dict :: "rule_index option"
  folder :: "string option"
  items :: "message list option"
  excel_doc_updates :: "updates option"

text \<open>\<open>__init__(self, excel_file, archive_folder, mailbox_name=None, folder_name=None)\<close>\<close>

definition init :: "string \<Rightarrow> string \<Rightarrow> string option \<Rightarrow> string option \<Rightarrow> processor" where
  "init excel_file' archive_folder' mailbox_name' folder_name' =
     \<lparr>excel_file = excel_file', wb = None, auto_ws = None, mailbox_name = mailbox_name',
      archive_folder = archive_folder', mapping_df = None, mapping_dict = None,
      folder = None, items = None, excel_doc_updates = None\<rparr>"

definition info :: "log_entry \<Rightarrow> world \<Rightarrow> world" where
  "info e w = w\<lparr>logs := logs w @ [e]\<rparr>"

section \<open>Resetting the template\<close>

text \<open>
  The loop of \<open>reset_excel_template\<close>: from \<open>row\<close> on, while the cell in column E
  (column 5) has a value, empty the cells in columns E and F of that row. Returns the
  sheet and the row at which the loop stopped.
\<close>

definition max_row :: "worksheet \<Rightarrow> nat" where
  "max_row ws = foldr (\<lambda>((r, c), v) m. max r m) ws 0"

lemma max_row_Cons: "max_row (((r, c), v) # ws) = max r (max_row ws)"
  by (simp add: max_row_def)

lemma max_row_Nil: "max_row [] = 0"
  by (simp add: max_row_def)

lemma max_row_ge: "map_of ws (r, c) = Some v \<Longrightarrow> r \<le> max_row ws"
  by (induction ws) (auto simp: max_row_Cons split: if_splits)

lemma max_row_delete: "max_row (AList.delete k ws) \<le> max_row ws"
  by (induction ws) (auto simp: max_row_Cons max_row_Nil)

function reset_loop :: "worksheet \<Rightarrow> nat \<Rightarrow> worksheet \<times> nat" where
  "reset_loop ws row =
     (if cell_value ws row 5 \<noteq> None
      then reset_loop (set_cell (set_cell ws row 5 None) row 6 None) (Suc row)
      else (ws, row))"
  by pat_completeness auto
termination
proof (relation "measure (\<lambda>(ws, row). Suc (max_row ws) - row)", goal_cases)
  case 1
  show ?case by simp
next
  case (2 ws row)
  then obtain v where "map_of ws (row, 5) = Some v"
    by (auto simp: cell_value_def)
  then have "row \<le> max_row ws"
    by (rule max_row_ge)
  moreover have "max_row (set_cell (set_cell ws row 5 None) row 6 None) \<le> max_row ws"
    unfolding set_cell_def using max_row_delete le_trans by (simp, blast)
  ultimately show ?case by simp
qed

text \<open>
  The configuration constants read from the ini file, and the defined names the
  workbook is asked for.
\<close>

record config =
  EXCEL_FILE :: string
  AUTOMATED_SHEET :: string
  SHARED_MAILBOX :: string
  FOLDER_NAME :: string
  BASE_PATH :: string

definition default_names :: "string list" where
  "default_names = [''CBD'', ''PBD'', ''P2BD'', ''Start_Time'', ''End_Time'', ''Execution_Time'']"

text \<open>
  \<open>_get_named_cell_value\<close>: for each name the cell it points at, or \<open>None\<close> with a
  warning; \<open>wb[sheet_name]\<close> raises KeyError when the sheet is not in the workbook.
\<close>

fun get_named_cell_value ::
  "workbook \<Rightarrow> string list \<Rightarrow> world \<Rightarrow> (error + (string \<times> (string \<times> nat \<times> nat) option) list) \<times> world"
where
  "get_named_cell_value b [] w = (Inr [], w)"
| "get_named_cell_value b (name # names) w =
     (case map_of (defined_names b) name of
        None \<Rightarrow>
          (case get_named_cell_value b names (info (NamedRangeNotFound name) w) of
             (Inl e, w') \<Rightarrow> (Inl e, w')
           | (Inr cells, w') \<Rightarrow> (Inr ((name, None) # cells), w'))
      | Some (sheet_name, r, c) \<Rightarrow>
          (if sheet_name \<in> fst ` set (sheets b)
           then (case get_named_cell_value b names w of
                   (Inl e, w') \<Rightarrow> (Inl e, w')
                 | (Inr cells, w') \<Rightarrow> (Inr ((name, Some (sheet_name, r, c)) # cells), w'))
           else (Inl KeyError, w)))"

text \<open>
  \<open>named_cells[name].value = v\<close> for each pair in turn; a name without a cell raises
  AttributeError and leaves the earlier assignments in the workbook.
\<close>

fun set_named ::
  "(string \<times> (string \<times> nat \<times> nat) option) list \<Rightarrow> (string \<times> string) list \<Rightarrow> workbook
     \<Rightarrow> error option \<times> workbook"
where
  "set_named cells [] b = (None, b)"
| "set_named cells ((name, v) # others) b =
     (case map_of cells name of
        Some (Some (sheet_name, r, c)) \<Rightarrow> set_named cells others (wb_set_cell b sheet_name r c (Some v))
      | _ \<Rightarrow> (Some AttributeError, b))"

text \<open>
  \<open>reset_excel_template(cbd, pbd, p2bd, script_start)\<close>; the four arguments are the
  texts \<open>strftime\<close> produces for them.
\<close>

definition reset_excel_template ::
  "config \<Rightarrow> string \<Rightarrow> string \<Rightarrow> string \<Rightarrow> string \<Rightarrow> processor \<Rightarrow> world
     \<Rightarrow> error option \<times> processor \<times> world"
where
  "reset_excel_template cfg cbd pbd p2bd script_start self w =
     (case load_workbook w of
        None \<Rightarrow> (None, self, info CannotLoadWorkbook w)
      | Some b \<Rightarrow>
          (let self1 = self\<lparr>wb := Some b\<rparr>;
               w1 = info WorkbookLoaded w
           in if AUTOMATED_SHEET cfg \<notin> fst ` set (sheets b)
              then (None, self1, info SheetNotFound w1)
              else
                (let self2 = self1\<lparr>auto_ws := Some (AUTOMATED_SHEET cfg)\<rparr>
                 in case get_named_cell_value b default_names w1 of
                      (Inl e, w2) \<Rightarrow> (Some e, self2, w2)
                    | (Inr cells, w2) \<Rightarrow>
                        (case set_named cells
                                [(''CBD'', cbd), (''PBD'', pbd), (''P2BD'', p2bd),
                                 (''Start_Time'', script_start)] b of
                           (Some e, b1) \<Rightarrow> (Some e, self2\<lparr>wb := Some b1\<rparr>, w2)
                         | (None, b1) \<Rightarrow>
                             (let w3 = info (BusinessDates cbd pbd p2bd) w2;
                                  (ws, row) = reset_loop (dict_get (sheets b1) (AUTOMATED_SHEET cfg)) 2;
                                  b2 = b1\<lparr>sheets := AList.update (AUTOMATED_SHEET cfg) ws (sheets b1)\<rparr>
                              in (None, self2\<lparr>wb := Some b2\<rparr>, info (StatusReset (row - 2)) w3))))))"

section \<open>Building the rule index\<close>

definition build_dictionary_from_excel ::
  "processor \<Rightarrow> world \<Rightarrow> (error + (dataframe \<times> rule_index) option) \<times> processor \<times> world"
where
  "build_dictionary_from_excel self w =
     (case (auto_ws self, read_excel w) of
        (Some title, Some df0) \<Rightarrow>
          (let df = df0\<lparr>columns := map (\<lambda>c. py_lower (py_strip c)) (columns df0)\<rparr>;
               self1 = self\<lparr>mapping_df := Some df\<rparr>
           in if list_ex (\<lambda>col. col \<notin> set (columns df)) required_cols
              then (Inl KeyError, self1, w)
              else
                (let mapping = build_loop (columns df) 0 (rows df) [];
                     self2 = (if rows df = [] then self1 else self1\<lparr>mapping_dict := Some mapping\<rparr>)
                 in (Inr (Some (df, mapping)), self2, info (MappingCreated (length mapping)) w)))
      | _ \<Rightarrow> (Inr None, self, info FailedToRead w))"

section \<open>Matching and saving\<close>

text \<open>
  The innermost loop, \<open>for match in possible_matches\<close>, for one attachment. The state
  is the update dictionary, the surroundings and the flag \<open>matched\<close>; a failing
  \<open>SaveAsFile\<close> ends the loop with the exception and the state reached so far.
\<close>

fun matches_loop ::
  "string \<Rightarrow> attachment \<Rightarrow> string \<Rightarrow> rule list \<Rightarrow> updates \<times> world \<times> bool
     \<Rightarrow> error option \<times> updates \<times> world \<times> bool"
where
  "matches_loop af att attachment_name [] (upd, w, matched) = (None, upd, w, matched)"
| "matches_loop af att attachment_name (m # ms) (upd, w, matched) =
     (if fnmatch attachment_name (AttachmentPattern m)
      then
        (let safe_name = re_sub_illegal (SaveName m);
             save_path = path_join af safe_name
         in if saveable att
            then matches_loop af att attachment_name ms
                   (AList.update (RowIndex m) [(''Status'', ''Saved'')] upd,
                    info (Saved save_path) (w\<lparr>saved_files := saved_files w @ [(save_path, content att)]\<rparr>),
                    True)
            else (Some ComError, upd, w, matched))
      else matches_loop af att attachment_name ms (upd, w, matched))"

text \<open>\<open>for attachment in message.Attachments\<close>\<close>

fun attachments_loop ::
  "string \<Rightarrow> string \<Rightarrow> string \<Rightarrow> rule list \<Rightarrow> attachment list \<Rightarrow> updates \<times> world
     \<Rightarrow> error option \<times> updates \<times> world"
where
  "attachments_loop af sender subject possible_matches [] (upd, w) = (None, upd, w)"
| "attachments_loop af sender subject possible_matches (att # atts) (upd, w) =
     (let attachment_name = py_strip (py_lower (FileName att))
      in case matches_loop af att attachment_name possible_matches (upd, w, False) of
           (Some e, upd1, w1, matched) \<Rightarrow> (Some e, upd1, w1)
         | (None, upd1, w1, matched) \<Rightarrow>
             attachments_loop af sender subject possible_matches atts
               (upd1, if matched then w1 else info (NoMatch sender subject attachment_name) w1))"

text \<open>The body of the \<open>try\<close> for message number \<open>i\<close>.\<close>

definition process_message ::
  "processor \<Rightarrow> nat \<Rightarrow> message \<Rightarrow> updates \<times> world \<Rightarrow> error option \<times> updates \<times> world"
where
  "process_message self i msg uw =
     (if Class msg = MAIL \<and> 0 < length (Attachments msg)
      then
        (let sender = py_strip (py_lower (SenderEmailAddress msg));
             subject = py_strip (py_lower (Subject msg));
             key = (sender, subject)
         in case mapping_dict self of
              None \<Rightarrow> (Some AttributeError, uw)
            | Some d \<Rightarrow>
                (case uw of (upd, w) \<Rightarrow>
                   attachments_loop (archive_folder self) sender subject (dict_get d key)
                     (Attachments msg) (upd, info (ProcessingMessage i sender subject) w)))
      else (None, uw))"

text \<open>\<open>for i, message in enumerate(self.items)\<close> with its \<open>try\<close> / \<open>except Exception\<close>.\<close>

fun messages_loop :: "processor \<Rightarrow> nat \<Rightarrow> message list \<Rightarrow> updates \<times> world \<Rightarrow> updates \<times> world" where
  "messages_loop self i [] uw = uw"
| "messages_loop self i (msg # msgs) uw =
     (case process_message self i msg uw of
        (None, upd, w) \<Rightarrow> messages_loop self (Suc i) msgs (upd, w)
      | (Some e, upd, w) \<Rightarrow>
          messages_loop self (Suc i) msgs (upd, info (ErrorProcessingMessage i e) w))"

definition match_and_save_attachments ::
  "processor \<Rightarrow> world \<Rightarrow> (error + updates) \<times> processor \<times> world"
where
  "match_and_save_attachments self w =
     (case items self of
        None \<Rightarrow> (Inl ValueError, self, w)
      | Some msgs \<Rightarrow>
          (case messages_loop self 0 msgs ([], w) of
             (upd, w1) \<Rightarrow>
               (Inr upd, self\<lparr>excel_doc_updates := Some upd\<rparr>, info (EmailsProcessed (length upd)) w1)))"

section \<open>Writing the status back\<close>

text \<open>
  \<open>for idx, update in self.excel_doc_updates.items()\<close>: the row is \<open>idx + 2\<close>, the
  column is looked up under the label \<open>Status\<close> in the data frame's columns.
\<close>

fun status_loop :: "processor \<Rightarrow> updates \<Rightarrow> error option \<times> processor" where
  "status_loop self [] = (None, self)"
| "status_loop self ((idx, update) # others) =
     (let excel_row = idx + 2
      in case map_of update ''Status'' of
           None \<Rightarrow> status_loop self others
         | Some status \<Rightarrow>
             (case mapping_df self of
                None \<Rightarrow> (Some AttributeError, self)
              | Some df \<Rightarrow>
                  (case get_loc ''Status'' (columns df) of
                     None \<Rightarrow> (Some KeyError, self)
                   | Some loc \<Rightarrow>
                       (let status_col = loc + 1
                        in case (wb self, auto_ws self) of
                             (Some b, Some title) \<Rightarrow>
                               status_loop
                                 (self\<lparr>wb := Some (wb_set_cell b title excel_row status_col (Some status))\<rparr>)
                                 others
                           | _ \<Rightarrow> (Some AttributeError, self)))))"

text \<open>
  \<open>update_excel_status(script_end, duration)\<close>; the two arguments are the texts written
  into the cells.
\<close>

definition update_excel_status ::
  "string \<Rightarrow> string \<Rightarrow> processor \<Rightarrow> world \<Rightarrow> error option \<times> processor \<times> world"
where
  "update_excel_status script_end duration self w =
     (case excel_doc_updates self of
        None \<Rightarrow> (Some ValueError, self, w)
      | Some upd \<Rightarrow>
          (case status_loop self upd of
             (Some e, self1) \<Rightarrow> (Some e, self1, w)
           | (None, self1) \<Rightarrow>
               (let w1 = info StatusUpdated w
                in case wb self1 of
                     None \<Rightarrow> (Some AttributeError, self1, w1)
                   | Some b \<Rightarrow>
                       (case get_named_cell_value b default_names w1 of
                          (Inl e, w2) \<Rightarrow> (Some e, self1, w2)
                        | (Inr cells, w2) \<Rightarrow>
                            (case set_named cells
                                    [(''End_Time'', script_end), (''Execution_Time'', duration)] b of
                               (Some e, b1) \<Rightarrow> (Some e, self1\<lparr>wb := Some b1\<rparr>, w2)
                             | (None, b1) \<Rightarrow>
                                 (if save_ok w2
                                  then (None, self1\<lparr>wb := Some b1\<rparr>,
                                        info WorkbookSaved (w2\<lparr>saved_workbook := Some b1\<rparr>))
                                  else (None, self1\<lparr>wb := Some b1\<rparr>, info FailedToSave w2)))))))"

section \<open>The archive path and the processor of a run\<close>








section \<open>A run, and the tables and messages of the scenarios\<close>

text \<open>
  The stages in the order \<open>main\<close> calls them, from the reset to the write-back, on a
  given processor, with the messages the mail folder delivered.
\<close>

definition run_stages ::
  "config \<Rightarrow> processor \<Rightarrow> world \<Rightarrow> message list
     \<Rightarrow> (error + updates) \<times> error option \<times> processor \<times> world"
where
  "run_stages cfg self w msgs =
     (case reset_excel_template cfg ''2026-11-04'' ''2026-11-03'' ''2026-11-02''
             ''2026-11-04 09:00:00'' self w of
        (e1, self1, w1) \<Rightarrow>
          (case build_dictionary_from_excel self1 w1 of
             (r2, self2, w2) \<Rightarrow>
               (case match_and_save_attachments (self2\<lparr>items := Some msgs\<rparr>) w2 of
                  (r3, self3, w3) \<Rightarrow>
                    (case update_excel_status ''2026-11-04 09:00:05'' ''0:00:05'' self3 w3 of
                       (e4, self4, w4) \<Rightarrow> (r3, e4, self4, w4)))))"

definition status_cell :: "config \<Rightarrow> processor \<Rightarrow> nat \<Rightarrow> string option" where
  "status_cell cfg self r =
     (case wb self of
        None \<Rightarrow> None
      | Some b \<Rightarrow> cell_value (dict_get (sheets b) (AUTOMATED_SHEET cfg)) r 5)"

definition scenario_cfg :: config where
  "scenario_cfg =
     \<lparr>EXCEL_FILE = ''rules.xlsx'', AUTOMATED_SHEET = ''Automated'',
      SHARED_MAILBOX = ''shared@x.com'', FOLDER_NAME = ''Statements'',
      BASE_PATH = ''C:/Statements''\<rparr>"

definition scenario_names :: "(string \<times> (string \<times> nat \<times> nat)) list" where
  "scenario_names =
     [(''CBD'', (''Settings'', 1, 2)), (''PBD'', (''Settings'', 2, 2)),
      (''P2BD'', (''Settings'', 3, 2)), (''Start_Time'', (''Settings'', 4, 2)),
      (''End_Time'', (''Settings'', 5, 2)), (''Execution_Time'', (''Settings'', 6, 2))]"

definition scenario_header :: "string list" where
  "scenario_header = [''Sender'', ''Subject'', ''Attachment'', ''SaveName'', ''Status'']"

text \<open>The table of the spec's first scenario: one rule, no status yet.\<close>

definition scenario_book :: workbook where
  "scenario_book =
     \<lparr>sheets =
        [(''Automated'',
          [((1, 1), ''Sender''), ((1, 2), ''Subject''), ((1, 3), ''Attachment''),
           ((1, 4), ''SaveName''), ((1, 5), ''Status''),
           ((2, 1), ''a@x.com''), ((2, 2), ''Report''), ((2, 3), ''*.csv''),
           ((2, 4), ''daily.csv'')]),
         (''Settings'', [])],
      defined_names = scenario_names\<rparr>"

definition scenario_df :: dataframe where
  "scenario_df =
     \<lparr>columns = scenario_header,
      rows = [[Text ''a@x.com'', Text ''Report'', Text ''*.csv'', Text ''daily.csv'', NaN]]\<rparr>"

definition scenario_world :: world where
  "scenario_world =
     \<lparr>logs = [], saved_files = [], read_excel = Some scenario_df,
      load_workbook = Some scenario_book, save_ok = True, saved_workbook = None\<rparr>"

definition scenario_msg :: message where
  "scenario_msg =
     \<lparr>Class = 43, SenderEmailAddress = ''A@X.COM'', Subject = ''report'',
      Attachments = [\<lparr>FileName = ''Data.CSV'', content = ''bytes'', saveable = True\<rparr>]\<rparr>"

definition scenario_processor :: processor where
  "scenario_processor = init ''rules.xlsx'' ''C:/archive'' (Some ''shared@x.com'') None"

text \<open>
  A table as the previous run left it: two rules, the second one matched and marked,
  the first one not.
\<close>

definition previous_run_book :: workbook where
  "previous_run_book =
     \<lparr>sheets =
        [(''Automated'',
          [((1, 1), ''Sender''), ((1, 2), ''Subject''), ((1, 3), ''Attachment''),
           ((1, 4), ''SaveName''), ((1, 5), ''Status''),
           ((2, 1), ''a@x.com''), ((2, 2), ''Report''), ((2, 3), ''*.csv''),
           ((2, 4), ''daily.csv''),
           ((3, 1), ''b@y.com''), ((3, 2), ''Invoice''), ((3, 3), ''*.pdf''),
           ((3, 4), ''invoice.pdf''), ((3, 5), ''Saved'')]),
         (''Settings'', [])],
      defined_names = scenario_names\<rparr>"


section \<open>What a run may change\<close>











section \<open>Facts about the string functions\<close>

lemma of_char_less_256: "(of_char c :: nat) < 256"
proof -
  have "(of_char c :: nat) = of_char c mod 256" by simp
  also have "\<dots> < 256" by (rule mod_less_divisor) simp
  finally show ?thesis .
qed

lemma lower_char_not_upper: "\<not> is_upper (lower_char c)"
  using of_char_less_256 [of c] by (auto simp: lower_char_def is_upper_def Let_def)

lemma lower_char_idem: "lower_char (lower_char c) = lower_char c"
  using lower_char_not_upper [of c] by (simp add: lower_char_def [of "lower_char c"])

lemma is_space_lower_char: "is_space (lower_char c) = is_space c"
  using of_char_less_256 [of c] by (auto simp: lower_char_def is_upper_def is_space_def Let_def)

lemma is_upper_S: "is_upper (CHR ''S'')"
  by (simp add: is_upper_def)

lemma S_notin_py_lower: "CHR ''S'' \<notin> set (py_lower s)"
  using lower_char_not_upper is_upper_S by (auto simp: py_lower_def)

lemma get_loc_None: "name \<notin> set cols \<Longrightarrow> get_loc name cols = None"
  by (induction cols) auto

text \<open>
  The loader lower-cases every column label, so no label of the data frame it keeps
  is \<open>Status\<close> with a capital S.
\<close>

lemma get_loc_Status_lowered:
  "get_loc ''Status'' (map (\<lambda>c. py_lower (py_strip c)) cols) = None"
proof (rule get_loc_None)
  show "''Status'' \<notin> set (map (\<lambda>c. py_lower (py_strip c)) cols)"
  proof
    assume "''Status'' \<in> set (map (\<lambda>c. py_lower (py_strip c)) cols)"
    then obtain c where "''Status'' = py_lower (py_strip c)" by auto
    then have "CHR ''S'' \<in> set (py_lower (py_strip c))"
      by (metis list.set_intros(1))
    then show False using S_notin_py_lower by blast
  qed
qed

section \<open>Facts about the index and the loops of the evaluator\<close>































section \<open>C1: the write-back by row index\<close>

text \<open>
  C1. The claim: for every outcome the synchronizer finds the row by \<open>rowIndex\<close> (row
  \<open>i + 2\<close> of the sheet) and sets its status cell to \<open>Saved\<close>. On the spec's own
  scenario (one rule, one matching message) the evaluator records the outcome for row
  0, and \<open>update_excel_status\<close> then asks the data frame for the column \<open>Status\<close>,
  which the loader has renamed to \<open>status\<close>: it raises KeyError, the status cell of
  row 2 stays empty and the workbook is never saved.
\<close>

theorem status_writeback_raises_KeyError:
  "(case run_stages scenario_cfg scenario_processor scenario_world [scenario_msg] of
      (r, e, self, w) \<Rightarrow>
        r = Inr [(0, [(''Status'', ''Saved'')])] \<and> e = Some KeyError
        \<and> status_cell scenario_cfg self 2 = None \<and> saved_workbook w = None)"
  by code_simp

section \<open>C2: where the attachments are written\<close>


section \<open>C3: the reset before evaluation\<close>

text \<open>
  C3. The claim: the reset clears the status of every row that carried one, wherever
  the row sits. The loop stops at the first row whose status cell is empty: on the
  table the previous run left (row 2 without a status, row 3 marked \<open>Saved\<close>) it
  clears nothing, reports zero cleared rows, and row 3 enters the evaluation with its
  old status.
\<close>

theorem reset_stops_at_first_empty_status:
  "(case reset_excel_template scenario_cfg ''2026-11-04'' ''2026-11-03'' ''2026-11-02''
           ''2026-11-04 09:00:00'' scenario_processor
           (scenario_world\<lparr>load_workbook := Some previous_run_book\<rparr>) of
      (e, self, w) \<Rightarrow>
        e = None \<and> status_cell scenario_cfg self 2 = None
        \<and> status_cell scenario_cfg self 3 = Some ''Saved''
        \<and> last (logs w) = StatusReset 0)"
  by code_simp

section \<open>C8: keys that are not in the index\<close>

text \<open>
  C8. The claim: looking up a key that is not in the rule index yields no candidates
  and raises nothing. The loader stores the index in the processor inside its row
  loop, so a table with a header and no rows leaves \<open>mapping_dict\<close> at \<open>None\<close>; the
  evaluator's lookup then raises AttributeError for every mail with an attachment.
  The handler of the message catches it and logs an error; the attachment is not
  logged as unmatched.
\<close>

theorem empty_table_lookup_raises:
  "(case run_stages scenario_cfg scenario_processor
           (scenario_world\<lparr>read_excel := Some (scenario_df\<lparr>rows := []\<rparr>)\<rparr>) [scenario_msg] of
      (r, e, self, w) \<Rightarrow>
        r = Inr [] \<and> mapping_dict self = None
        \<and> process_message self 0 scenario_msg ([], w) = (Some AttributeError, [], w)
        \<and> ErrorProcessingMessage 0 AttributeError \<in> set (logs w)
        \<and> NoMatch ''a@x.com'' ''report'' ''data.csv'' \<notin> set (logs w))"
  by code_simp

section \<open>C5: every matching rule is recorded\<close>



section \<open>C7: the save name is sanitized at every write\<close>



section \<open>C9: a failing message does not end the run\<close>



section \<open>C10: the stages refuse to run out of order\<close>

text \<open>
  C10. \<open>match_and_save_attachments\<close> raises ValueError when the items have not been
  retrieved, \<open>update_excel_status\<close> raises ValueError when there is no outcome set
  yet; both leave the processor and the surroundings (log, written files, workbook)
  as they were.
\<close>

theorem stage_order_enforced:
  "(items self = None \<longrightarrow> match_and_save_attachments self w = (Inl ValueError, self, w))
   \<and> (excel_doc_updates self = None \<longrightarrow>
        update_excel_status script_end duration self w = (Some ValueError, self, w))"
  by (simp add: match_and_save_attachments_def update_excel_status_def)

theorem stage_order_enforced_witness:
  "items scenario_processor = None \<and> excel_doc_updates scenario_processor = None
   \<and> match_and_save_attachments scenario_processor scenario_world
       = (Inl ValueError, scenario_processor, scenario_world)
   \<and> update_excel_status ''2026-11-04 09:00:05'' ''0:00:05'' scenario_processor scenario_world
       = (Some ValueError, scenario_processor, scenario_world)"
proof -
  have i: "items scenario_processor = None" "excel_doc_updates scenario_processor = None"
    by (simp_all add: scenario_processor_def init_def)
  show ?thesis
    using i stage_order_enforced [of scenario_processor scenario_world
      "''2026-11-04 09:00:05''" "''0:00:05''"]
    by blast
qed

end
